theory Spec2Isabelle
  imports Main
begin

section \<open>JavaScript values\<close>

text \<open>
  The module \<^verbatim>\<open>index.js\<close> handles plain JavaScript data: what a sandboxed evaluation
  hands back, what the caller passes as options, and what \<^verbatim>\<open>JSON.stringify\<close> consumes.
  A number is an IEEE double in JavaScript; the model keeps the integer-valued ones
  (read: below \<open>2 ^ 53\<close> in magnitude, where the decimal rendering is exact), \<^verbatim>\<open>NaN\<close>
  and the two infinities. Fractions and negative zero are outside the model.
  An object is the list of its own enumerable properties in property order; a function
  carries its source text.
\<close>

datatype jsnum = NumNaN | NumInf bool | NumInt int

datatype jsval =
    JUndefined
  | JNull
  | JBool bool
  | JNum jsnum
  | JStr string
  | JArr "jsval list"
  | JObj "(string \<times> jsval) list"
  | JFun string

type_synonym fields = "(string \<times> jsval) list"

text \<open>The \<^verbatim>\<open>typeof\<close> operator.\<close>

fun typeof :: "jsval \<Rightarrow> string" where
  "typeof JUndefined = ''undefined''"
| "typeof JNull = ''object''"
| "typeof (JBool b) = ''boolean''"
| "typeof (JNum n) = ''number''"
| "typeof (JStr s) = ''string''"
| "typeof (JArr xs) = ''object''"
| "typeof (JObj ps) = ''object''"
| "typeof (JFun f) = ''function''"

text \<open>Truthiness, as \<^verbatim>\<open>!x\<close>, \<^verbatim>\<open>x && y\<close> and \<^verbatim>\<open>if (x)\<close> read a value.\<close>

fun truthy :: "jsval \<Rightarrow> bool" where
  "truthy JUndefined = False"
| "truthy JNull = False"
| "truthy (JBool b) = b"
| "truthy (JNum NumNaN) = False"
| "truthy (JNum (NumInf s)) = True"
| "truthy (JNum (NumInt i)) = (i \<noteq> 0)"
| "truthy (JStr s) = (s \<noteq> [])"
| "truthy (JArr xs) = True"
| "truthy (JObj ps) = True"
| "truthy (JFun f) = True"

text \<open>Reading a property: an absent property reads as \<^verbatim>\<open>undefined\<close>.\<close>

definition field :: "fields \<Rightarrow> string \<Rightarrow> jsval" where
  "field fs k = (case map_of fs k of None \<Rightarrow> JUndefined | Some v \<Rightarrow> v)"

subsection \<open>Numbers and strings as text\<close>

definition digit_char :: "nat \<Rightarrow> char" where
  "digit_char d = ''0123456789'' ! d"

fun decimal :: "nat \<Rightarrow> string" where
  "decimal n = (if n < 10 then [digit_char n] else decimal (n div 10) @ [digit_char (n mod 10)])"

declare decimal.simps [simp del]

definition show_int :: "int \<Rightarrow> string" where
  "show_int i = (if i < 0 then ''-'' @ decimal (nat (- i)) else decimal (nat i))"

fun show_num :: "jsnum \<Rightarrow> string" where
  "show_num NumNaN = ''NaN''"
| "show_num (NumInf neg) = (if neg then ''-Infinity'' else ''Infinity'')"
| "show_num (NumInt i) = show_int i"

fun join :: "string \<Rightarrow> string list \<Rightarrow> string" where
  "join sep [] = []"
| "join sep [x] = x"
| "join sep (x # y # ys) = x @ sep @ join sep (y # ys)"

text \<open>
  String conversion, as \<^verbatim>\<open>'...' + s + '...'\<close> and \<^verbatim>\<open>parseInt\<close> apply it to their
  argument. An array joins its elements with commas (\<^verbatim>\<open>null\<close> and \<^verbatim>\<open>undefined\<close>
  elements as the empty text), a plain object reads \<^verbatim>\<open>[object Object]\<close>.
\<close>

fun to_string :: "jsval \<Rightarrow> string" where
  "to_string JUndefined = ''undefined''"
| "to_string JNull = ''null''"
| "to_string (JBool b) = (if b then ''true'' else ''false'')"
| "to_string (JNum n) = show_num n"
| "to_string (JStr s) = s"
| "to_string (JArr xs) =
     join '','' (map (\<lambda>x. if x = JUndefined \<or> x = JNull then [] else to_string x) xs)"
| "to_string (JObj ps) = ''[object Object]''"
| "to_string (JFun f) = f"

subsection \<open>\<^verbatim>\<open>parseInt(x, 10)\<close>\<close>

text \<open>
  \<^verbatim>\<open>parseInt\<close> converts its argument to text, skips leading white space, reads an
  optional sign and the longest run of decimal digits. No digit gives \<^verbatim>\<open>NaN\<close>,
  which is \<open>None\<close> here.
\<close>

definition is_space :: "char \<Rightarrow> bool" where
  "is_space c = (c \<in> set [CHR 0x20, CHR 0x09, CHR 0x0A, CHR 0x0B, CHR 0x0C, CHR 0x0D])"

definition is_digit :: "char \<Rightarrow> bool" where
  "is_digit c = (48 \<le> (of_char c :: nat) \<and> (of_char c :: nat) \<le> 57)"

definition digits_value :: "string \<Rightarrow> nat" where
  "digits_value ds = foldl (\<lambda>a c. 10 * a + ((of_char c :: nat) - 48)) 0 ds"

definition parseInt10 :: "jsval \<Rightarrow> int option" where
  "parseInt10 v =
     (let s = dropWhile is_space (to_string v);
          neg = (s \<noteq> [] \<and> hd s = CHR ''-'');
          r = (if s \<noteq> [] \<and> (hd s = CHR ''-'' \<or> hd s = CHR ''+'') then tl s else s);
          ds = takeWhile is_digit r
      in if ds = [] then None
         else Some (if neg then - int (digits_value ds) else int (digits_value ds)))"

subsection \<open>\<^verbatim>\<open>JSON.stringify(value, null, space)\<close>\<close>

definition hex_char :: "nat \<Rightarrow> char" where
  "hex_char d = ''0123456789abcdef'' ! d"

definition escape_char :: "char \<Rightarrow> string" where
  "escape_char c =
     (if c = CHR 0x22 then [CHR 0x5C, CHR 0x22]
      else if c = CHR 0x5C then [CHR 0x5C, CHR 0x5C]
      else if c = CHR 0x08 then [CHR 0x5C, CHR ''b'']
      else if c = CHR 0x0C then [CHR 0x5C, CHR ''f'']
      else if c = CHR 0x0A then [CHR 0x5C, CHR ''n'']
      else if c = CHR 0x0D then [CHR 0x5C, CHR ''r'']
      else if c = CHR 0x09 then [CHR 0x5C, CHR ''t'']
      else if (of_char c :: nat) < 32
        then [CHR 0x5C, CHR ''u'', CHR ''0'', CHR ''0'',
              hex_char ((of_char c :: nat) div 16), hex_char ((of_char c :: nat) mod 16)]
      else [c])"

definition quote :: "string \<Rightarrow> string" where
  "quote s = [CHR 0x22] @ concat (map escape_char s) @ [CHR 0x22]"

text \<open>
  The gap of one nesting level: \<^verbatim>\<open>space\<close> is clamped to at most ten blanks, and
  anything below one (\<^verbatim>\<open>NaN\<close> included) gives the empty gap.
\<close>

definition gap_of :: "int option \<Rightarrow> string" where
  "gap_of space = (case space of None \<Rightarrow> [] | Some n \<Rightarrow> replicate (nat (min 10 n)) (CHR 0x20))"

definition wrap :: "string \<Rightarrow> string \<Rightarrow> string \<Rightarrow> string \<Rightarrow> string list \<Rightarrow> string" where
  "wrap gap ind opening closing parts =
     (if parts = [] then opening @ closing
      else if gap = [] then opening @ join '','' parts @ closing
      else opening @ [CHR 0x0A] @ ind @ gap
             @ join ('','' @ [CHR 0x0A] @ ind @ gap) parts
             @ [CHR 0x0A] @ ind @ closing)"

text \<open>
  Serialisation of one value at the indentation \<open>ind\<close>. \<^verbatim>\<open>undefined\<close> and functions
  have no JSON text (\<open>None\<close>): an array element without text is written \<^verbatim>\<open>null\<close>, an
  object property without text is left out.
\<close>

fun ser :: "string \<Rightarrow> string \<Rightarrow> jsval \<Rightarrow> string option" where
  "ser gap ind JUndefined = None"
| "ser gap ind (JFun f) = None"
| "ser gap ind JNull = Some ''null''"
| "ser gap ind (JBool b) = Some (if b then ''true'' else ''false'')"
| "ser gap ind (JNum n) = Some (case n of NumInt i \<Rightarrow> show_int i | _ \<Rightarrow> ''null'')"
| "ser gap ind (JStr s) = Some (quote s)"
| "ser gap ind (JArr xs) =
     Some (wrap gap ind ''['' '']''
       (map (\<lambda>x. case ser gap (ind @ gap) x of None \<Rightarrow> ''null'' | Some t \<Rightarrow> t) xs))"
| "ser gap ind (JObj ps) =
     Some (wrap gap ind ''{'' ''}''
       (concat (map (\<lambda>(k, v). case ser gap (ind @ gap) v of
                                None \<Rightarrow> []
                              | Some t \<Rightarrow> [quote k @ '':'' @ (if gap = [] then [] else '' '') @ t])
                    ps)))"

definition stringify :: "jsval \<Rightarrow> int option \<Rightarrow> string option" where
  "stringify v space = ser (gap_of space) [] v"

section \<open>Outcomes and effects\<close>

text \<open>
  An \<^verbatim>\<open>Error\<close> object with its name and message, and what a promise is rejected with:
  \<^verbatim>\<open>parse\<close> rejects with a plain string, the other stages with an error object.
\<close>

datatype js_error = JsError string string

datatype reason = Text string | Failure js_error

fun err_message :: "js_error \<Rightarrow> string" where
  "err_message (JsError name msg) = msg"

fun describe_error :: "js_error \<Rightarrow> string" where
  "describe_error (JsError name msg) = name @ '': '' @ msg"

fun describe :: "reason \<Rightarrow> string" where
  "describe (Text s) = s"
| "describe (Failure e) = describe_error e"

text \<open>
  How a call ends. \<open>Fulfilled\<close> and \<open>Rejected\<close> settle the returned promise.
  \<open>Thrown\<close> is an exception that leaves the entry point itself, before any promise
  exists. \<open>Uncaught\<close> is an exception raised inside the sandbox callback: nothing
  settles the promise after it. \<open>Exited\<close> is \<^verbatim>\<open>process.exit\<close>.
\<close>

datatype 'a outcome =
    Fulfilled 'a
  | Rejected reason
  | Thrown js_error
  | Uncaught js_error
  | Exited nat

text \<open>
  What a call does besides returning, in order. The texts of the three console events
  are the arguments of chalk's \<^verbatim>\<open>info\<close>, \<^verbatim>\<open>warn\<close> and \<^verbatim>\<open>error\<close>, which only add
  colour codes.
\<close>

datatype event =
    ConsoleInfo string
  | ConsoleWarn string
  | ConsoleError string
  | SandboxRun string
  | StdoutWrite string
  | FileWrite string "string option"
  | ProcessExit nat

text \<open>
  What the sandbox hands to its callback: \<^verbatim>\<open>info.result\<close> and \<^verbatim>\<open>info.console\<close>.
\<close>

record info =
  result :: string
  console :: "jsval list"

text \<open>
  The surroundings of a call: whether standard output is a terminal, cardinal's
  \<^verbatim>\<open>highlight(out, {json: true, linenos: l})\<close> (\<open>Inl\<close> when it throws), and what
  \<^verbatim>\<open>sandbox.run\<close> reports for a program text. The packages \<^verbatim>\<open>cardinal\<close> and
  \<^verbatim>\<open>sandbox\<close> are dependencies, not part of the sources, so they are parameters.
\<close>

record env =
  isTTY :: bool
  highlight :: "string option \<Rightarrow> jsval \<Rightarrow> js_error + string"
  sandbox_run :: "string \<Rightarrow> info"

section \<open>Options\<close>

definition DEFAULT_INDENT :: jsval where
  "DEFAULT_INDENT = JNum (NumInt 2)"

definition DEFAULT_NOCOLOR :: jsval where
  "DEFAULT_NOCOLOR = JBool True"

definition DEFAULT_DEBUG :: jsval where
  "DEFAULT_DEBUG = JBool False"

definition DEFAULT_LINENOS :: jsval where
  "DEFAULT_LINENOS = JBool False"

text \<open>
  The second argument of every entry point: left out, a callback function, or an
  options object.
\<close>

datatype rawopts = Omitted | Callback | Given fields

text \<open>
  Modelled from the spec: the function \<^verbatim>\<open>defaults\<close> of the package of that name,
  which \<^verbatim>\<open>index.js\<close> requires and which is not among the sources. The spec's merge
  rule: explicit caller-supplied fields override defaults; unspecified fields fall back
  to defaults; unrecognized fields are passed through. \<open>None\<close> is an options argument
  that was left out.
\<close>

definition defaults :: "fields option \<Rightarrow> fields \<Rightarrow> fields" where
  "defaults opts dflt =
     (case opts of
        None \<Rightarrow> dflt
      | Some fs \<Rightarrow> fs @ filter (\<lambda>(k, v). map_of fs k = None) dflt)"

definition options :: "rawopts \<Rightarrow> fields" where
  "options opts =
     defaults (case opts of Callback \<Rightarrow> Some [] | Omitted \<Rightarrow> None | Given fs \<Rightarrow> Some fs)
       [(''debug'', DEFAULT_DEBUG),
        (''indent'', DEFAULT_INDENT),
        (''no-color'', DEFAULT_NOCOLOR),
        (''line-nos'', DEFAULT_LINENOS)]"

section \<open>The three stages\<close>

text \<open>
  Every entry point returns a promise and passes it through \<^verbatim>\<open>nodeify\<close>, which hands
  the settled promise to a callback when there is one. The model gives how the promise
  settles, or what happens instead, together with the effects in their order.
\<close>

subsection \<open>\<^verbatim>\<open>parse\<close>\<close>

text \<open>
  The program text that \<^verbatim>\<open>parse\<close> sends to the sandbox: the source between the
  brackets of a \<^verbatim>\<open>console.log\<close> call and again between those of a \<^verbatim>\<open>return\<close>.
\<close>

definition harness :: "string \<Rightarrow> string" where
  "harness s =
     ''(function() { console.log(('' @ s @ '')); return typeof function() { return ('' @ s
       @ '');}();})();''"

text \<open>
  A text in single quotes: the three tags that the callback accepts are compared as
  \<^verbatim>\<open>"'object'"\<close>, \<^verbatim>\<open>"'string'"\<close> and \<^verbatim>\<open>"'number'"\<close>.
\<close>

definition sq :: "string \<Rightarrow> string" where
  "sq t = [CHR 0x27] @ t @ [CHR 0x27]"

definition accepted :: "string list" where
  "accepted = [sq ''object'', sq ''string'', sq ''number'']"

text \<open>
  The callback of \<^verbatim>\<open>sandbox.run\<close>, lines 78 to 85. Its parameter is named \<^verbatim>\<open>info\<close>
  and hides chalk's \<^verbatim>\<open>info\<close> function of the module: with \<^verbatim>\<open>opts.debug\<close> set,
  the debug line calls the report object as a function, which raises a
  \<^verbatim>\<open>TypeError\<close> before \<^verbatim>\<open>dfrd.reject\<close> is reached. The promise is resolved with
  \<^verbatim>\<open>info.console[0]\<close>, which is \<^verbatim>\<open>undefined\<close> when nothing was logged.
\<close>

definition classify :: "fields \<Rightarrow> info \<Rightarrow> jsval outcome" where
  "classify opts i =
     (if result i \<in> set accepted
        then Fulfilled (case console i of [] \<Rightarrow> JUndefined | v # vs \<Rightarrow> v)
      else if truthy (field opts ''debug'')
        then Uncaught (JsError ''TypeError'' ''info is not a function'')
      else Rejected (Text (''input evaluated to '' @ result i @ '', which is no good.'')))"

definition parse :: "env \<Rightarrow> jsval \<Rightarrow> rawopts \<Rightarrow> jsval outcome \<times> event list" where
  "parse e s ropts =
     (let fn = harness (to_string s);
          opts = options ropts
      in (classify opts (sandbox_run e fn),
          (if truthy (field opts ''debug'')
             then [ConsoleInfo (''Executing:'' @ [CHR 0x0A] @ fn)] else [])
          @ [SandboxRun fn]))"

subsection \<open>\<^verbatim>\<open>output\<close>\<close>

definition j2j_output :: "env \<Rightarrow> jsval \<Rightarrow> rawopts \<Rightarrow> string option \<times> event list" where
  "j2j_output e v ropts =
     (let opts = options ropts;
          out = stringify v (parseInt10 (field opts ''indent''))
      in if isTTY e \<and> \<not> truthy (field opts ''no-color'') \<and> \<not> truthy (field opts ''output'')
           then (case highlight e out (field opts ''line-nos'') of
                   Inr h \<Rightarrow> (Some h, [])
                 | Inl x \<Rightarrow>
                     (out, [ConsoleWarn (''Could not highlight!  Exception: '' @ [CHR 0x22]
                                          @ err_message x @ [CHR 0x22])]))
         else (out, []))"

subsection \<open>\<^verbatim>\<open>write\<close>\<close>

text \<open>
  \<^verbatim>\<open>write(input, opts, callback)\<close>; \<open>cb\<close> says whether the third argument was given.
  Writing \<^verbatim>\<open>undefined\<close> to standard output raises the runtime's \<^verbatim>\<open>TypeError\<close>.
  Failures of the file system are not modelled.
\<close>

definition wrapped :: js_error where
  "wrapped = JsError ''Error'' ''cannot coerce input into anything JSON.stringify() can handle''"

definition j2j_write :: "env \<Rightarrow> jsval \<Rightarrow> rawopts \<Rightarrow> bool \<Rightarrow> jsval outcome \<times> event list" where
  "j2j_write e input ropts cb =
     (let opts = options ropts;
          (p, evs) = parse e input (Given opts)
      in case p of
           Fulfilled s \<Rightarrow>
             (let (out, ws) = j2j_output e s (Given opts)
              in if truthy (field opts ''output'')
                   then (Fulfilled JUndefined,
                         evs @ ws @ [FileWrite (to_string (field opts ''output'')) out])
                 else (case out of
                         Some t \<Rightarrow> (Fulfilled JUndefined, evs @ ws @ [StdoutWrite t])
                       | None \<Rightarrow>
                           (Rejected (Failure (JsError ''TypeError'' ''invalid data'')),
                            evs @ ws)))
         | Rejected err \<Rightarrow>
             (let logged_cause =
                    (if truthy (field opts ''debug'') then [ConsoleError (describe err)] else []);
                  printed = [ConsoleError (describe (Failure wrapped))]
              in if cb then (Fulfilled JUndefined, evs @ logged_cause @ printed)
                 else (Exited 1, evs @ logged_cause @ printed @ [ProcessExit 1]))
         | Thrown x \<Rightarrow> (Thrown x, evs)
         | Uncaught x \<Rightarrow> (Uncaught x, evs)
         | Exited n \<Rightarrow> (Exited n, evs))"

subsection \<open>\<^verbatim>\<open>j2j\<close>\<close>

definition j2j :: "env \<Rightarrow> jsval \<Rightarrow> rawopts \<Rightarrow> string option outcome \<times> event list" where
  "j2j e input ropts =
     (if \<not> truthy input
        then (Thrown (JsError ''Error'' ''input parameter cannot be empty''), [])
      else
        (let opts = options ropts
         in if typeof input = ''string''
              then (let (out, ws) = j2j_output e input (Given opts) in (Fulfilled out, ws))
            else
              (let (p, evs) = parse e input (Given opts)
               in case p of
                    Fulfilled v \<Rightarrow>
                      (let (out, ws) = j2j_output e v (Given opts) in (Fulfilled out, evs @ ws))
                  | Rejected err \<Rightarrow> (Rejected err, evs)
                  | Thrown x \<Rightarrow> (Thrown x, evs)
                  | Uncaught x \<Rightarrow> (Uncaught x, evs)
                  | Exited n \<Rightarrow> (Exited n, evs))))"

section \<open>The evaluator\<close>

text \<open>
  Modelled from the spec: the Evaluator (section 4.1 of the spec). The package
  \<^verbatim>\<open>sandbox\<close> and the JavaScript engine behind it are not among the sources. The spec:
  the Evaluator executes the source as an expression inside an isolated context and
  captures the produced value and its runtime type tag, or fails with a message; an
  identifier that the context does not bind raises a reference error. The model reads
  a fragment of JavaScript only: numbers written with digits, strings in quotes without
  escapes, \<^verbatim>\<open>true\<close>, \<^verbatim>\<open>false\<close>, \<^verbatim>\<open>null\<close>, identifiers, and object literals with
  identifiers as keys. A text outside the fragment is not read (\<open>None\<close>): the model
  says nothing about it.
\<close>

datatype expr = Lit jsval | Ident string | Obj "(string \<times> expr) list"

text \<open>Modelled from the spec: the characters of an identifier, and the reserved words.\<close>

definition ident_start :: "char \<Rightarrow> bool" where
  "ident_start c =
     (c \<in> set ''abcdefghijklmnopqrstuvwxyzABCDEFGHIJKLMNOPQRSTUVWXYZ_$'')"

definition ident_char :: "char \<Rightarrow> bool" where
  "ident_char c = (ident_start c \<or> is_digit c)"

definition reserved :: "string list" where
  "reserved =
     [''break'', ''case'', ''catch'', ''class'', ''const'', ''continue'', ''debugger'',
      ''default'', ''delete'', ''do'', ''else'', ''enum'', ''export'', ''extends'',
      ''finally'', ''for'', ''function'', ''if'', ''implements'', ''import'', ''in'',
      ''instanceof'', ''interface'', ''let'', ''new'', ''package'', ''private'',
      ''protected'', ''public'', ''return'', ''static'', ''super'', ''switch'', ''this'',
      ''throw'', ''try'', ''typeof'', ''var'', ''void'', ''while'', ''with'', ''yield'']"

text \<open>Modelled from the spec: reading a fixed piece of program text.\<close>

fun expect :: "string \<Rightarrow> string \<Rightarrow> string option" where
  "expect [] s = Some s"
| "expect (c # cs) [] = None"
| "expect (c # cs) (d # ds) = (if c = d then expect cs ds else None)"

text \<open>
  Modelled from the spec: a string literal runs to the next quote of its kind; one with
  a backslash or a line break is outside the fragment.
\<close>

definition read_string :: "char \<Rightarrow> string \<Rightarrow> (expr \<times> string) option" where
  "read_string q r =
     (let body = takeWhile (\<lambda>c. c \<noteq> q) r;
          rest = dropWhile (\<lambda>c. c \<noteq> q) r
      in if rest = [] \<or> CHR 0x5C \<in> set body \<or> CHR 0x0A \<in> set body \<or> CHR 0x0D \<in> set body
           then None
         else Some (Lit (JStr body), tl rest))"

text \<open>
  Modelled from the spec: a number literal is a run of at most fifteen digits without a
  leading zero, so that its value is exact.
\<close>

definition read_number :: "string \<Rightarrow> (expr \<times> string) option" where
  "read_number s =
     (let ds = takeWhile is_digit s
      in if (length ds > 1 \<and> hd ds = CHR ''0'') \<or> length ds > 15 then None
         else Some (Lit (JNum (NumInt (int (digits_value ds)))), dropWhile is_digit s))"

text \<open>
  Modelled from the spec: a word is one of the three literals or an identifier; a
  reserved word is outside the fragment.
\<close>

definition read_word :: "string \<Rightarrow> (expr \<times> string) option" where
  "read_word s =
     (let w = takeWhile ident_char s;
          r = dropWhile ident_char s
      in if w = ''true'' then Some (Lit (JBool True), r)
         else if w = ''false'' then Some (Lit (JBool False), r)
         else if w = ''null'' then Some (Lit JNull, r)
         else if w \<in> set reserved then None
         else Some (Ident w, r))"

text \<open>Modelled from the spec: a property name of an object literal.\<close>

definition read_key :: "string \<Rightarrow> (string \<times> string) option" where
  "read_key s =
     (let w = takeWhile ident_char s
      in if w \<noteq> [] \<and> ident_start (hd w) \<and> w \<noteq> ''__proto__''
           then Some (w, dropWhile ident_char s)
         else None)"

text \<open>
  Modelled from the spec: reading an expression from the front of a text, which gives
  the expression and the text after it. The first argument bounds the depth of the
  recursion; the text itself is long enough. An object literal that repeats a property
  name is outside the fragment.
\<close>

fun read_expr :: "string \<Rightarrow> string \<Rightarrow> (expr \<times> string) option"
and read_members :: "string \<Rightarrow> string \<Rightarrow> ((string \<times> expr) list \<times> string) option" where
  "read_expr [] s = None"
| "read_expr (f # fuel) s =
     (case dropWhile is_space s of
        [] \<Rightarrow> None
      | c # r \<Rightarrow>
          if c = CHR ''{''
            then (case read_members fuel r of
                    None \<Rightarrow> None
                  | Some (ms, r') \<Rightarrow> if distinct (map fst ms) then Some (Obj ms, r') else None)
          else if c = CHR 0x27 \<or> c = CHR 0x22 then read_string c r
          else if is_digit c then read_number (c # r)
          else if ident_start c then read_word (c # r)
          else None)"
| "read_members [] s = None"
| "read_members (f # fuel) s =
     (case dropWhile is_space s of
        [] \<Rightarrow> None
      | c # r \<Rightarrow>
          if c = CHR ''}'' then Some ([], r)
          else
            (case read_key (c # r) of
               None \<Rightarrow> None
             | Some (k, r1) \<Rightarrow>
                 (case expect '':'' (dropWhile is_space r1) of
                    None \<Rightarrow> None
                  | Some r2 \<Rightarrow>
                      (case read_expr fuel r2 of
                         None \<Rightarrow> None
                       | Some (v, r3) \<Rightarrow>
                           (case dropWhile is_space r3 of
                              [] \<Rightarrow> None
                            | d # r4 \<Rightarrow>
                                if d = CHR '',''
                                  then (case read_members fuel r4 of
                                          None \<Rightarrow> None
                                        | Some (ms, r5) \<Rightarrow> Some ((k, v) # ms, r5))
                                else if d = CHR ''}'' then Some ([(k, v)], r4)
                                else None)))))"

text \<open>
  Modelled from the spec: the value of an expression in a context with the globals
  \<open>g\<close>, or the error it raises.
\<close>

fun eval :: "(string \<rightharpoonup> jsval) \<Rightarrow> expr \<Rightarrow> js_error + jsval"
and eval_members :: "(string \<rightharpoonup> jsval) \<Rightarrow> (string \<times> expr) list \<Rightarrow> js_error + fields" where
  "eval g (Lit v) = Inr v"
| "eval g (Ident x) =
     (case g x of
        None \<Rightarrow> Inl (JsError ''ReferenceError'' (x @ '' is not defined''))
      | Some v \<Rightarrow> Inr v)"
| "eval g (Obj ms) = (case eval_members g ms of Inl x \<Rightarrow> Inl x | Inr fs \<Rightarrow> Inr (JObj fs))"
| "eval_members g [] = Inr []"
| "eval_members g ((k, m) # ms) =
     (case eval g m of
        Inl x \<Rightarrow> Inl x
      | Inr v \<Rightarrow> (case eval_members g ms of Inl x \<Rightarrow> Inl x | Inr fs \<Rightarrow> Inr ((k, v) # fs)))"

text \<open>
  Modelled from the spec: reading a program. The only programs that \<^verbatim>\<open>parse\<close> sends
  are harnesses, so the model reads a program of that shape and no other: the fixed
  text of the harness with one expression in the \<^verbatim>\<open>console.log\<close> call and one in the
  \<^verbatim>\<open>return\<close>.
\<close>

definition read_program :: "string \<Rightarrow> (expr \<times> expr) option" where
  "read_program fn =
     (case expect ''(function() { console.log(('' fn of
        None \<Rightarrow> None
      | Some r0 \<Rightarrow>
          (case read_expr r0 r0 of
             None \<Rightarrow> None
           | Some (e1, r1) \<Rightarrow>
               (case expect '')); return typeof function() { return ('' (dropWhile is_space r1) of
                  None \<Rightarrow> None
                | Some r2 \<Rightarrow>
                    (case read_expr r2 r2 of
                       None \<Rightarrow> None
                     | Some (e2, r3) \<Rightarrow>
                         (case expect '');}();})();'' (dropWhile is_space r3) of
                            None \<Rightarrow> None
                          | Some r4 \<Rightarrow> if r4 = [] then Some (e1, e2) else None)))))"

text \<open>
  Modelled from the spec: the run of a program. The first expression is evaluated and
  its value logged, then the second is evaluated and the \<^verbatim>\<open>typeof\<close> its value is
  returned; an error ends the run. \<open>evaluations\<close> counts the expressions evaluated.
\<close>

record run =
  returned :: "js_error + string"
  captured :: "jsval list"
  evaluations :: nat

definition run_program :: "(string \<rightharpoonup> jsval) \<Rightarrow> expr \<times> expr \<Rightarrow> run" where
  "run_program g p =
     (case eval g (fst p) of
        Inl x \<Rightarrow> \<lparr>returned = Inl x, captured = [], evaluations = 1\<rparr>
      | Inr v1 \<Rightarrow>
          (case eval g (snd p) of
             Inl x \<Rightarrow> \<lparr>returned = Inl x, captured = [v1], evaluations = 2\<rparr>
           | Inr v2 \<Rightarrow> \<lparr>returned = Inr (typeof v2), captured = [v1], evaluations = 2\<rparr>))"

definition evaluate :: "(string \<rightharpoonup> jsval) \<Rightarrow> string \<Rightarrow> run option" where
  "evaluate g fn = map_option (run_program g) (read_program fn)"

text \<open>
  Modelled from the spec: what the isolated context reports to the callback, a type tag
  in single quotes as \<^verbatim>\<open>index.js\<close> compares it, or the text of the error.
\<close>

definition report :: "run \<Rightarrow> info" where
  "report r =
     \<lparr>result = (case returned r of Inl x \<Rightarrow> describe_error x | Inr tag \<Rightarrow> sq tag),
      console = captured r\<rparr>"

text \<open>
  Modelled from the spec: surroundings whose isolated context is the modelled
  Evaluator with the globals \<open>g\<close>. A program that the model does not read is left to
  the isolated context of \<open>e\<close>.
\<close>

definition evaluating :: "(string \<rightharpoonup> jsval) \<Rightarrow> env \<Rightarrow> env" where
  "evaluating g e =
     e\<lparr>sandbox_run := (\<lambda>fn. case evaluate g fn of Some r \<Rightarrow> report r | None \<Rightarrow> sandbox_run e fn)\<rparr>"

text \<open>
  Surroundings without a terminal and without a highlighter, for concrete runs.
\<close>

definition quiet_env :: env where
  "quiet_env =
     \<lparr>isTTY = False,
      highlight = (\<lambda>out l. Inl (JsError ''Error'' ''no highlighter'')),
      sandbox_run = (\<lambda>fn. \<lparr>result = ''SyntaxError: Unexpected token'', console = []\<rparr>)\<rparr>"

subsection \<open>Text without white space\<close>

definition spaceless :: "string \<Rightarrow> bool" where
  "spaceless t = list_all (\<lambda>c. \<not> is_space c) t"

text \<open>A value whose strings and property names hold no white space.\<close>

fun bare :: "jsval \<Rightarrow> bool" where
  "bare (JStr s) = spaceless s"
| "bare (JArr xs) = list_all bare xs"
| "bare (JObj ps) = list_all (\<lambda>(k, v). spaceless k \<and> bare v) ps"
| "bare v = True"

section \<open>Lemmas on the options and the stages\<close>

lemmas default_values = DEFAULT_DEBUG_def DEFAULT_INDENT_def DEFAULT_NOCOLOR_def DEFAULT_LINENOS_def

lemma options_Omitted:
  "options Omitted =
     [(''debug'', JBool False), (''indent'', JNum (NumInt 2)),
      (''no-color'', JBool True), (''line-nos'', JBool False)]"
  by (simp add: options_def defaults_def default_values)

lemma map_of_defaults:
  "map_of (defaults (Some fs) dflt) k = (case map_of fs k of Some v \<Rightarrow> Some v | None \<Rightarrow> map_of dflt k)"
proof (cases "map_of fs k")
  case None
  have "map_of (filter (\<lambda>(k, v). map_of fs k = None) dflt) k = map_of dflt k"
    using None by (induction dflt) auto
  with None show ?thesis
    by (simp add: defaults_def map_add_def)
next
  case (Some v)
  then show ?thesis
    by (simp add: defaults_def map_add_def)
qed

lemma field_options_Given:
  "field (options (Given fs)) k =
     (case map_of fs k of Some v \<Rightarrow> v | None \<Rightarrow> field (options Omitted) k)"
  unfolding field_def options_def
  by (simp add: map_of_defaults split: option.splits) (simp add: defaults_def)

lemma defaults_idem: "defaults (Some (defaults (Some fs) dflt)) dflt = defaults (Some fs) dflt"
proof -
  have "filter (\<lambda>(k, v). map_of (defaults (Some fs) dflt) k = None) dflt = []"
    by (auto simp: filter_empty_conv map_of_defaults split: option.splits
             dest: weak_map_of_SomeI map_of_SomeD simp: map_of_eq_None_iff image_iff)
  then show ?thesis
    by (simp add: defaults_def)
qed

lemma options_idem: "options (Given (options r)) = options r"
proof (cases r)
  case Omitted
  then show ?thesis by (simp add: options_def defaults_def default_values)
next
  case Callback
  then show ?thesis by (simp add: options_def defaults_def default_values)
next
  case (Given fs)
  then show ?thesis by (simp add: options_def defaults_idem)
qed

lemma output_plain:
  "\<not> isTTY e \<or> truthy (field (options r) ''no-color'') \<or> truthy (field (options r) ''output'')
   \<Longrightarrow> j2j_output e v r = (stringify v (parseInt10 (field (options r) ''indent'')), [])"
  by (auto simp: j2j_output_def Let_def)

lemma field_indent_false [simp]:
  "field (options (Given [(''indent'', JBool False)])) k =
     (if k = ''indent'' then JBool False else field (options Omitted) k)"
  by (simp add: field_options_Given)

lemma field_Omitted [simp]:
  "field (options Omitted) ''debug'' = JBool False"
  "field (options Omitted) ''indent'' = JNum (NumInt 2)"
  "field (options Omitted) ''no-color'' = JBool True"
  "field (options Omitted) ''line-nos'' = JBool False"
  "field (options Omitted) ''output'' = JUndefined"
  by (simp_all add: options_Omitted field_def)

lemma parseInt10_false [simp]: "parseInt10 (JBool False) = None"
  by (simp add: parseInt10_def is_space_def is_digit_def)

lemma parseInt10_zero [simp]: "parseInt10 (JNum (NumInt 0)) = Some 0"
  by (simp add: parseInt10_def is_space_def is_digit_def show_int_def decimal.simps digit_char_def digits_value_def)

lemma parseInt10_two [simp]: "parseInt10 (JNum (NumInt 2)) = Some 2"
  by (simp add: parseInt10_def is_space_def is_digit_def show_int_def decimal.simps digit_char_def digits_value_def)


lemma gap_of_compact [simp]: "gap_of None = []" "gap_of (Some 0) = []"
  by (simp_all add: gap_of_def)

lemma output_no_color:
  "truthy (field (options r) ''no-color'')
   \<Longrightarrow> j2j_output e v r = (stringify v (parseInt10 (field (options r) ''indent'')), [])"
  by (simp add: output_plain)

lemma output_merged [simp]: "j2j_output e v (Given (options r)) = j2j_output e v r"
  by (simp add: j2j_output_def options_idem)

lemma parse_merged [simp]: "parse e s (Given (options r)) = parse e s r"
  by (simp add: parse_def options_idem)

lemma classify_quiet:
  "\<not> truthy (field opts ''debug'') \<Longrightarrow>
   classify opts i =
     (if result i \<in> {sq ''object'', sq ''string'', sq ''number''}
        then Fulfilled (case console i of [] \<Rightarrow> JUndefined | v # vs \<Rightarrow> v)
      else Rejected (Text (''input evaluated to '' @ result i @ '', which is no good.'')))"
  by (simp add: classify_def accepted_def)

lemma field_indent_zero [simp]:
  "field (options (Given [(''indent'', JNum (NumInt 0))])) k =
     (if k = ''indent'' then JNum (NumInt 0) else field (options Omitted) k)"
  by (simp add: field_options_Given)

lemma show_int_2 [simp]: "show_int 2 = ''2''"
  by (simp add: show_int_def decimal.simps digit_char_def)

lemma serialise_example:
  \<open>ser [] [] (JObj [(''foo'', JStr ''bar''), (''baz'', JNum (NumInt 2))]) = Some ''{"foo":"bar","baz":2}''\<close>
  by (simp add: wrap_def quote_def escape_char_def)

lemma parse_events:
  "snd (parse e s ropts) =
     (if truthy (field (options ropts) ''debug'')
        then [ConsoleInfo (''Executing:'' @ [CHR 0x0A] @ harness (to_string s))] else [])
     @ [SandboxRun (harness (to_string s))]"
  by (simp add: parse_def Let_def)

lemma parse_rejected:
  assumes "fst (parse e s ropts) = Rejected cause"
  shows "\<not> truthy (field (options ropts) ''debug'')"
    and "cause = Text (''input evaluated to '' @ result (sandbox_run e (harness (to_string s)))
                        @ '', which is no good.'')"
  using assms by (auto simp: parse_def Let_def classify_def split: if_splits)

lemma parse_debug_never_rejects:
  "truthy (field (options ropts) ''debug'') \<Longrightarrow> fst (parse e s ropts) \<noteq> Rejected cause"
  using parse_rejected(1) by blast

subsection \<open>Compact text has no white space\<close>

lemma spaceless_simps [simp]:
  "spaceless []"
  "spaceless (c # t) = (\<not> is_space c \<and> spaceless t)"
  "spaceless (a @ b) = (spaceless a \<and> spaceless b)"
  by (simp_all add: spaceless_def)

lemma spaceless_join:
  "spaceless sep \<Longrightarrow> list_all spaceless parts \<Longrightarrow> spaceless (join sep parts)"
  by (induction sep parts rule: join.induct) simp_all

lemma spaceless_concat:
  "list_all spaceless parts \<Longrightarrow> spaceless (concat parts)"
  by (induction parts) simp_all

lemma digit_char_visible: "d < 10 \<Longrightarrow> \<not> is_space (digit_char d)"
proof -
  assume "d < 10"
  then have "digit_char d \<in> set ''0123456789''"
    unfolding digit_char_def by (intro nth_mem) simp
  then show ?thesis
    by (auto simp: is_space_def)
qed

lemma hex_char_visible: "d < 16 \<Longrightarrow> \<not> is_space (hex_char d)"
proof -
  assume "d < 16"
  then have "hex_char d \<in> set ''0123456789abcdef''"
    unfolding hex_char_def by (intro nth_mem) simp
  then show ?thesis
    by (auto simp: is_space_def)
qed

lemma spaceless_decimal: "spaceless (decimal n)"
proof (induction n rule: decimal.induct)
  case (1 n)
  show ?case
  proof (cases "n < 10")
    case True
    then show ?thesis
      by (subst decimal.simps) (simp add: digit_char_visible)
  next
    case False
    with 1 show ?thesis
      by (subst decimal.simps) (simp add: digit_char_visible)
  qed
qed

lemma spaceless_show_int: "spaceless (show_int i)"
  by (simp add: show_int_def spaceless_decimal is_space_def)

lemma spaceless_escape_char: "\<not> is_space c \<Longrightarrow> spaceless (escape_char c)"
proof -
  assume c: "\<not> is_space c"
  have "(of_char c :: nat) < 32 \<Longrightarrow> (of_char c :: nat) div 16 < 16"
    by simp
  then show ?thesis
    using c by (simp add: escape_char_def hex_char_visible) (simp add: is_space_def)
qed

lemma spaceless_quote: "spaceless s \<Longrightarrow> spaceless (quote s)"
proof -
  assume "spaceless s"
  then have "list_all spaceless (map escape_char s)"
    by (induction s) (simp_all add: spaceless_escape_char)
  then show ?thesis
    by (simp add: quote_def spaceless_concat is_space_def)
qed

lemma spaceless_wrap:
  "list_all spaceless parts \<Longrightarrow> spaceless opening \<Longrightarrow> spaceless closing
   \<Longrightarrow> spaceless (wrap [] ind opening closing parts)"
  by (simp add: wrap_def spaceless_join is_space_def)

lemma spaceless_ser:
  "gap = [] \<Longrightarrow> bare v \<Longrightarrow> ser gap ind v = Some t \<Longrightarrow> spaceless t"
proof (induction gap ind v arbitrary: t rule: ser.induct)
  case (7 gap ind xs)
  let ?item = "\<lambda>x. case ser gap (ind @ gap) x of None \<Rightarrow> ''null'' | Some t \<Rightarrow> t"
  have "spaceless (?item x)" if x: "x \<in> set xs" for x
  proof (cases "ser gap (ind @ gap) x")
    case None
    then show ?thesis by (simp add: is_space_def)
  next
    case (Some u)
    from x "7.prems"(2) have "bare x" by (simp add: list_all_iff)
    with "7.IH" [OF x "7.prems"(1) _ Some] Some show ?thesis by simp
  qed
  then have "list_all spaceless (map ?item xs)"
    by (simp add: list_all_iff)
  then have "spaceless (wrap [] ind ''['' '']'' (map ?item xs))"
    by (rule spaceless_wrap) (simp_all add: is_space_def)
  with "7.prems" show ?case
    by auto
next
  case (8 gap ind ps)
  let ?member = "\<lambda>(k, v). case ser gap (ind @ gap) v of
                            None \<Rightarrow> []
                          | Some t \<Rightarrow> [quote k @ '':'' @ (if gap = [] then [] else '' '') @ t]"
  have "list_all spaceless (?member p)" if p: "p \<in> set ps" for p
  proof (cases p)
    case (Pair k v)
    show ?thesis
    proof (cases "ser gap (ind @ gap) v")
      case None
      with Pair show ?thesis by simp
    next
      case (Some u)
      from p Pair "8.prems"(2) have b: "spaceless k" "bare v"
        by (auto simp: list_all_iff)
      have "spaceless u"
        using "8.IH" [OF p Pair [symmetric] "8.prems"(1) b(2) Some] .
      with Pair Some b "8.prems"(1) show ?thesis
        by (simp add: spaceless_quote is_space_def)
    qed
  qed
  then have "list_all spaceless (concat (map ?member ps))"
    by (induction ps) simp_all
  then have "spaceless (wrap [] ind ''{'' ''}'' (concat (map ?member ps)))"
    by (rule spaceless_wrap) (simp_all add: is_space_def)
  with "8.prems" show ?case
    by auto
qed (auto simp: spaceless_quote spaceless_show_int is_space_def split: jsnum.splits)

subsection \<open>Runs of the evaluator\<close>

lemmas reading = read_program_def read_string_def read_number_def read_word_def read_key_def
  is_space_def is_digit_def ident_start_def ident_char_def reserved_def digits_value_def

lemma sandbox_run_evaluating:
  "evaluate g fn = Some r \<Longrightarrow> sandbox_run (evaluating g e) fn = report r"
  by (simp add: evaluating_def)

lemma evaluating_surroundings [simp]:
  "isTTY (evaluating g e) = isTTY e"
  "highlight (evaluating g e) = highlight e"
  by (simp_all add: evaluating_def)

lemma evaluate_literal:
  "evaluate g ''(function() { console.log(({foo: 'bar', baz: 2})); return typeof function() { return ({foo: 'bar', baz: 2});}();})();''
   = Some \<lparr>returned = Inr ''object'',
            captured = [JObj [(''foo'', JStr ''bar''), (''baz'', JNum (NumInt 2))]],
            evaluations = 2\<rparr>"
  by (simp add: evaluate_def run_program_def reading)

lemma evaluate_foo:
  "evaluate Map.empty ''(function() { console.log((foo)); return typeof function() { return (foo);}();})();''
   = Some \<lparr>returned = Inl (JsError ''ReferenceError'' ''foo is not defined''),
            captured = [], evaluations = 1\<rparr>"
  by (simp add: evaluate_def run_program_def reading)

lemma info_foo:
  "sandbox_run (evaluating Map.empty e)
     ''(function() { console.log((foo)); return typeof function() { return (foo);}();})();''
   = \<lparr>result = ''ReferenceError: foo is not defined'', console = []\<rparr>"
  by (simp add: sandbox_run_evaluating [OF evaluate_foo] report_def)

section \<open>The claims\<close>

text \<open>
  C1. The claim: \<^verbatim>\<open>j2j\<close> serialises a non-string input directly and sends a
  non-empty string through evaluation, classification and serialisation. The code does
  the reverse. At the module's own documented example the string is serialised as a JSON
  string, quotes included, and the isolated context is never run; an object is the input
  that reaches \<^verbatim>\<open>parse\<close>, where its string conversion \<^verbatim>\<open>[object Object]\<close> is put into
  the harness.
\<close>

theorem j2j_string_not_evaluated:
  \<open>j2j e (JStr ''{foo: 'bar', baz: 2}'') (Given [(''indent'', JBool False)])
     = (Fulfilled (Some ''"{foo: 'bar', baz: 2}"''), [])
   \<and> snd (j2j e (JObj [(''foo'', JStr ''bar'')]) Omitted)
     = [SandboxRun (harness ''[object Object]'')]\<close>
proof -
  let ?src = "JStr ''{foo: 'bar', baz: 2}''"
  have "j2j_output e ?src (Given [(''indent'', JBool False)])
          = (Some ([CHR 0x22] @ ''{foo: 'bar', baz: 2}'' @ [CHR 0x22]), [])"
    by (simp add: output_no_color stringify_def quote_def escape_char_def)
  then have a: "j2j e ?src (Given [(''indent'', JBool False)])
     = (Fulfilled (Some ([CHR 0x22] @ ''{foo: 'bar', baz: 2}'' @ [CHR 0x22])), [])"
    by (simp add: j2j_def options_idem)
  have out: "j2j_output e v Omitted = (stringify v (Some 2), [])" for v
    by (simp add: output_no_color)
  have "snd (parse e (JObj [(''foo'', JStr ''bar'')]) Omitted) = [SandboxRun (harness ''[object Object]'')]"
    by (simp add: parse_def Let_def)
  then have b: "snd (j2j e (JObj [(''foo'', JStr ''bar'')]) Omitted) = [SandboxRun (harness ''[object Object]'')]"
    by (auto simp: j2j_def Let_def out split: prod.splits outcome.splits)
  from a b show ?thesis by simp
qed

text \<open>
  C2. The claim: the classifier accepts exactly the tags object, string and number and
  rejects every other outcome with the message \<^verbatim>\<open>input evaluated to <tag>, which is no good\<close>.
  With \<^verbatim>\<open>opts.debug\<close> off it does (lemma \<open>classify_quiet\<close>; the message ends with a
  full stop). With \<^verbatim>\<open>opts.debug\<close> on, an outcome of tag \<^verbatim>\<open>undefined\<close> is not rejected:
  the debug line raises a \<^verbatim>\<open>TypeError\<close> first, and so for every outcome that is not
  accepted (lemma \<open>parse_debug_never_rejects\<close>).
\<close>

theorem classify_debug_shadowed:
  "classify (options (Given [(''debug'', JBool True)])) \<lparr>result = sq ''undefined'', console = [JUndefined]\<rparr>
     = Uncaught (JsError ''TypeError'' ''info is not a function'')"
  by (simp add: classify_def accepted_def sq_def field_options_Given)

text \<open>
  C4. Called with the empty string, \<^verbatim>\<open>j2j\<close> fails at once with the error
  \<^verbatim>\<open>input parameter cannot be empty\<close>: the exception leaves the call before the
  options are merged, and nothing else happens; in particular the isolated context is
  not run, whatever the surroundings and the options are.
\<close>

theorem j2j_empty_input:
  "j2j e (JStr []) ropts = (Thrown (JsError ''Error'' ''input parameter cannot be empty''), [])"
  by (simp add: j2j_def)

text \<open>
  C5. A field that the caller supplies keeps the caller's value in the merged options,
  whatever the value is, and a field that the caller leaves out reads as the default.
  \<^verbatim>\<open>options({indent: false})\<close> keeps \<^verbatim>\<open>indent = false\<close> next to the three other
  defaults. Serialising with these options gives the compact form of any value: the
  text of \<open>ser\<close> with the empty gap, which holds no white space unless a string or a
  property name of the value does. The documented example comes out as
  \<^verbatim>\<open>{"foo":"bar","baz":2}\<close>.
\<close>

theorem explicit_options_override:
  \<open>field (options (Given fs)) k
      = (case map_of fs k of Some v \<Rightarrow> v | None \<Rightarrow> field (options Omitted) k)
   \<and> options (Given [(''indent'', JBool False)])
      = [(''indent'', JBool False), (''debug'', DEFAULT_DEBUG),
         (''no-color'', DEFAULT_NOCOLOR), (''line-nos'', DEFAULT_LINENOS)]
   \<and> j2j_output e v (Given [(''indent'', JBool False)]) = (ser [] [] v, [])
   \<and> (bare v \<longrightarrow> (\<forall>t. ser [] [] v = Some t \<longrightarrow> spaceless t))
   \<and> j2j_output e (JObj [(''foo'', JStr ''bar''), (''baz'', JNum (NumInt 2))])
        (Given [(''indent'', JBool False)])
      = (Some ''{"foo":"bar","baz":2}'', [])\<close>
proof -
  have merged: "options (Given [(''indent'', JBool False)])
      = [(''indent'', JBool False), (''debug'', DEFAULT_DEBUG),
         (''no-color'', DEFAULT_NOCOLOR), (''line-nos'', DEFAULT_LINENOS)]"
    by (simp add: options_def defaults_def)
  have out: "j2j_output e w (Given [(''indent'', JBool False)]) = (ser [] [] w, [])" for w
    by (simp add: output_no_color stringify_def)
  have compact: "bare v \<longrightarrow> (\<forall>t. ser [] [] v = Some t \<longrightarrow> spaceless t)"
    using spaceless_ser [of "[]" v "[]"] by blast
  show ?thesis
    using merged compact
    by (simp only: field_options_Given out serialise_example simp_thms)
qed

theorem explicit_options_override_witness:
  \<open>field (options (Given [(''indent'', JBool False), (''colour'', JNull)])) ''indent'' = JBool False
   \<and> field (options (Given [(''indent'', JBool False), (''colour'', JNull)])) ''debug'' = JBool False
   \<and> field (options (Given [(''indent'', JBool False), (''colour'', JNull)])) ''colour'' = JNull
   \<and> bare (JArr [JStr ''a'', JNum (NumInt 2)])
   \<and> ser [] [] (JArr [JStr ''a'', JNum (NumInt 2)]) = Some ''["a",2]''
   \<and> spaceless ''["a",2]''\<close>
proof -
  let ?fs = "[(''indent'', JBool False), (''colour'', JNull)]"
  let ?v = "JArr [JStr ''a'', JNum (NumInt 2)]"
  note th = explicit_options_override [where fs = ?fs and v = ?v]
  have b: "bare ?v"
    by (simp add: is_space_def)
  have s: \<open>ser [] [] ?v = Some ''["a",2]''\<close>
    by (simp add: wrap_def quote_def escape_char_def)
  have f: "field (options (Given ?fs)) ''indent'' = JBool False"
          "field (options (Given ?fs)) ''debug'' = JBool False"
          "field (options (Given ?fs)) ''colour'' = JNull"
    using th [where k = "''indent''"] th [where k = "''debug''"] th [where k = "''colour''"]
    by simp_all
  from th b s have \<open>spaceless ''["a",2]''\<close>
    by blast
  with f b s show ?thesis
    by simp
qed

text \<open>
  C6. The harness around \<^verbatim>\<open>{foo: 'bar', baz: 2}\<close> is the program text written out
  below. The Evaluator reads it, evaluates the literal to the object with the
  properties \<^verbatim>\<open>foo\<close> and \<^verbatim>\<open>baz\<close>, logs it and returns the tag \<^verbatim>\<open>object\<close>. \<^verbatim>\<open>parse\<close>
  with \<^verbatim>\<open>indent = 0\<close> sends exactly that text and is fulfilled with the object,
  \<^verbatim>\<open>output\<close> turns the object into exactly \<^verbatim>\<open>{"foo":"bar","baz":2}\<close>, and \<^verbatim>\<open>write\<close>
  sends that text to standard output.
\<close>

theorem object_literal_pipeline:
  \<open>evaluate g ''(function() { console.log(({foo: 'bar', baz: 2})); return typeof function() { return ({foo: 'bar', baz: 2});}();})();''
     = Some \<lparr>returned = Inr ''object'',
              captured = [JObj [(''foo'', JStr ''bar''), (''baz'', JNum (NumInt 2))]],
              evaluations = 2\<rparr>
   \<and> parse (evaluating g e) (JStr ''{foo: 'bar', baz: 2}'') (Given [(''indent'', JNum (NumInt 0))])
     = (Fulfilled (JObj [(''foo'', JStr ''bar''), (''baz'', JNum (NumInt 2))]),
        [SandboxRun ''(function() { console.log(({foo: 'bar', baz: 2})); return typeof function() { return ({foo: 'bar', baz: 2});}();})();''])
   \<and> j2j_output (evaluating g e) (JObj [(''foo'', JStr ''bar''), (''baz'', JNum (NumInt 2))])
        (Given [(''indent'', JNum (NumInt 0))])
     = (Some ''{"foo":"bar","baz":2}'', [])
   \<and> j2j_write (evaluating g e) (JStr ''{foo: 'bar', baz: 2}'') (Given [(''indent'', JNum (NumInt 0))]) cb
     = (Fulfilled JUndefined,
        [SandboxRun ''(function() { console.log(({foo: 'bar', baz: 2})); return typeof function() { return ({foo: 'bar', baz: 2});}();})();'',
         StdoutWrite ''{"foo":"bar","baz":2}''])\<close>
proof -
  let ?src = "''{foo: 'bar', baz: 2}''"
  let ?prog = "''(function() { console.log(({foo: 'bar', baz: 2})); return typeof function() { return ({foo: 'bar', baz: 2});}();})();''"
  let ?obj = "JObj [(''foo'', JStr ''bar''), (''baz'', JNum (NumInt 2))]"
  let ?opts = "Given [(''indent'', JNum (NumInt 0))]"
  let ?text = \<open>''{"foo":"bar","baz":2}''\<close>
  have h: "harness ?src = ?prog"
    by (simp add: harness_def)
  have info: "sandbox_run (evaluating g e) ?prog = \<lparr>result = sq ''object'', console = [?obj]\<rparr>"
    by (simp add: sandbox_run_evaluating [OF evaluate_literal] report_def)
  have p: "parse (evaluating g e) (JStr ?src) ?opts = (Fulfilled ?obj, [SandboxRun ?prog])"
    by (simp add: parse_def Let_def h info classify_def accepted_def)
  have "stringify ?obj (Some 0) = Some ?text"
    unfolding stringify_def gap_of_compact by (rule serialise_example)
  then have out: "j2j_output (evaluating g e) ?obj ?opts = (Some ?text, [])"
    by (simp add: output_no_color)
  have w: "j2j_write (evaluating g e) (JStr ?src) ?opts cb
             = (Fulfilled JUndefined, [SandboxRun ?prog, StdoutWrite ?text])"
    by (simp add: j2j_write_def Let_def p out)
  from evaluate_literal [of g] p out w show ?thesis
    by simp
qed

theorem object_literal_pipeline_witness:
  \<open>j2j_write (evaluating Map.empty quiet_env) (JStr ''{foo: 'bar', baz: 2}'')
      (Given [(''indent'', JNum (NumInt 0))]) False
     = (Fulfilled JUndefined,
        [SandboxRun ''(function() { console.log(({foo: 'bar', baz: 2})); return typeof function() { return ({foo: 'bar', baz: 2});}();})();'',
         StdoutWrite ''{"foo":"bar","baz":2}''])\<close>
  using object_literal_pipeline [of Map.empty quiet_env False]
  by simp

text \<open>
  C8. The claim: for a source that is one identifier, the evaluation raises a reference
  error and the promise of \<^verbatim>\<open>parse\<close> is rejected. For the source \<^verbatim>\<open>foo\<close> in a context that
  does not bind it, the evaluation raises the error, and with \<^verbatim>\<open>opts.debug\<close> off the
  promise is rejected with a message that holds it. With \<^verbatim>\<open>opts.debug\<close> on the promise
  is not rejected: the debug line of the callback raises a \<^verbatim>\<open>TypeError\<close> first.
\<close>

theorem identifier_debug_not_rejected:
  "evaluate Map.empty ''(function() { console.log((foo)); return typeof function() { return (foo);}();})();''
     = Some \<lparr>returned = Inl (JsError ''ReferenceError'' ''foo is not defined''),
              captured = [], evaluations = 1\<rparr>
   \<and> parse (evaluating Map.empty e) (JStr ''foo'') Omitted
     = (Rejected (Text ''input evaluated to ReferenceError: foo is not defined, which is no good.''),
        [SandboxRun ''(function() { console.log((foo)); return typeof function() { return (foo);}();})();''])
   \<and> parse (evaluating Map.empty e) (JStr ''foo'') (Given [(''debug'', JBool True)])
     = (Uncaught (JsError ''TypeError'' ''info is not a function''),
        [ConsoleInfo (''Executing:'' @ [CHR 0x0A]
           @ ''(function() { console.log((foo)); return typeof function() { return (foo);}();})();''),
         SandboxRun ''(function() { console.log((foo)); return typeof function() { return (foo);}();})();''])"
  using evaluate_foo
  by (simp add: parse_def Let_def harness_def info_foo classify_def accepted_def sq_def
        field_options_Given)

text \<open>
  C9, as amended. In \<^verbatim>\<open>write\<close>, when the promise of \<^verbatim>\<open>parse\<close> is rejected, the cause
  is replaced by one error with the message
  \<^verbatim>\<open>cannot coerce input into anything JSON.stringify() can handle\<close>. That error, and
  not the cause, is printed on the error stream, after which the process exits with
  status 1 when no callback was passed. With \<^verbatim>\<open>opts.debug\<close> off the cause is not
  printed.
\<close>

theorem write_wraps_rejection:
  assumes rej: "fst (parse e input ropts) = Rejected cause"
  shows "snd (j2j_write e input ropts cb)
           = snd (parse e input ropts)
             @ [ConsoleError ''Error: cannot coerce input into anything JSON.stringify() can handle'']
             @ (if cb then [] else [ProcessExit 1])
       \<and> fst (j2j_write e input ropts False) = Exited 1
       \<and> ConsoleError (describe cause) \<notin> set (snd (j2j_write e input ropts cb))"
proof -
  obtain evs where p: "parse e input ropts = (Rejected cause, evs)"
    using rej by (cases "parse e input ropts") simp
  have quiet: "\<not> truthy (field (options ropts) ''debug'')"
    using rej by (rule parse_rejected)
  have cause: "describe cause = ''input evaluated to ''
                 @ result (sandbox_run e (harness (to_string input))) @ '', which is no good.''"
    using parse_rejected(2) [OF rej] by simp
  have evs: "evs = [SandboxRun (harness (to_string input))]"
    using parse_events [of e input ropts] p quiet by simp
  have w: "j2j_write e input ropts c
             = (if c then Fulfilled JUndefined else Exited 1,
                evs @ [ConsoleError ''Error: cannot coerce input into anything JSON.stringify() can handle'']
                    @ (if c then [] else [ProcessExit 1]))" for c
    using quiet by (simp add: j2j_write_def Let_def p wrapped_def)
  show ?thesis
    using quiet by (simp add: w p evs cause)
qed

theorem write_wraps_rejection_witness:
  "fst (parse (evaluating Map.empty quiet_env) (JStr ''foo'') Omitted)
     = Rejected (Text ''input evaluated to ReferenceError: foo is not defined, which is no good.'')
   \<and> snd (j2j_write (evaluating Map.empty quiet_env) (JStr ''foo'') Omitted False)
     = [SandboxRun (harness ''foo''),
        ConsoleError ''Error: cannot coerce input into anything JSON.stringify() can handle'',
        ProcessExit 1]
   \<and> fst (j2j_write (evaluating Map.empty quiet_env) (JStr ''foo'') Omitted False) = Exited 1"
proof -
  have rej: "fst (parse (evaluating Map.empty quiet_env) (JStr ''foo'') Omitted)
     = Rejected (Text ''input evaluated to ReferenceError: foo is not defined, which is no good.'')"
    by (simp add: parse_def Let_def harness_def info_foo classify_def accepted_def sq_def)
  show ?thesis
    using write_wraps_rejection [OF rej, of False] rej
    by (simp add: parse_events)
qed

text \<open>
  C9 as stated fails for the source \<^verbatim>\<open>foo\<close> with a callback: the returned promise is
  fulfilled, not rejected, and the message that is printed is not
  \<^verbatim>\<open>cannot coerce input into anything usable\<close>.
\<close>

theorem write_failure_counterexample:
  "fst (j2j_write (evaluating Map.empty quiet_env) (JStr ''foo'') Omitted True)
     \<noteq> Rejected (Failure (JsError ''Error'' ''cannot coerce input into anything usable''))
   \<and> j2j_write (evaluating Map.empty quiet_env) (JStr ''foo'') Omitted True
     = (Fulfilled JUndefined,
        [SandboxRun (harness ''foo''),
         ConsoleError ''Error: cannot coerce input into anything JSON.stringify() can handle''])"
proof -
  have h: "harness ''foo''
     = ''(function() { console.log((foo)); return typeof function() { return (foo);}();})();''"
    by (simp add: harness_def)
  have "parse (evaluating Map.empty quiet_env) (JStr ''foo'') Omitted
     = (Rejected (Text ''input evaluated to ReferenceError: foo is not defined, which is no good.''),
        [SandboxRun (harness ''foo'')])"
    by (simp add: parse_def Let_def h info_foo classify_def accepted_def sq_def)
  then show ?thesis
    by (simp add: j2j_write_def Let_def wrapped_def)
qed




end
